theory Spec2Isabelle
  imports Main "HOL-Library.Sublist" "HOL-Library.AList"
begin

section \<open>JavaScript values\<close>

text \<open>
  The program is TypeScript that runs on untyped JSON data (\<^verbatim>\<open>prod: any\<close>), so
  products and API payloads are modelled as JavaScript values. An object is the list of its
  own enumerable properties in iteration order, all of them data: a parsed JSON document holds
  no function. Numbers are restricted to integers (the program only tests numbers for
  truthiness and prints them); characters are ASCII.
  A thrown exception is a value of type \<open>error\<close> carrying its message.
\<close>

datatype jsval =
    JUndefined
  | JNull
  | JBool bool
  | JNum int
  | JStr string
  | JArr "jsval list"
  | JObj "(string \<times> jsval) list"

datatype error = TypeError string | SyntaxError string | Error string

fun message :: "error \<Rightarrow> string" where
  "message (TypeError m) = m"
| "message (SyntaxError m) = m"
| "message (Error m) = m"

fun truthy :: "jsval \<Rightarrow> bool" where
  "truthy JUndefined = False"
| "truthy JNull = False"
| "truthy (JBool b) = b"
| "truthy (JNum n) = (n \<noteq> 0)"
| "truthy (JStr s) = (s \<noteq> [])"
| "truthy (JArr xs) = True"
| "truthy (JObj kvs) = True"

fun nullish :: "jsval \<Rightarrow> bool" where
  "nullish JUndefined = True"
| "nullish JNull = True"
| "nullish v = False"

text \<open>\<^verbatim>\<open>a || b\<close> and \<^verbatim>\<open>a ?? b\<close> (the right operands in this program are pure).\<close>

definition js_or :: "jsval \<Rightarrow> jsval \<Rightarrow> jsval" where
  "js_or a b = (if truthy a then a else b)"

definition js_coalesce :: "jsval \<Rightarrow> jsval \<Rightarrow> jsval" where
  "js_coalesce a b = (if nullish a then b else a)"

fun isArray :: "jsval \<Rightarrow> bool" where
  "isArray (JArr xs) = True"
| "isArray v = False"

fun typeof :: "jsval \<Rightarrow> string" where
  "typeof JUndefined = ''undefined''"
| "typeof JNull = ''object''"
| "typeof (JBool b) = ''boolean''"
| "typeof (JNum n) = ''number''"
| "typeof (JStr s) = ''string''"
| "typeof (JArr xs) = ''object''"
| "typeof (JObj kvs) = ''object''"

fun is_string :: "jsval \<Rightarrow> bool" where
  "is_string (JStr s) = True"
| "is_string v = False"

subsection \<open>Number and value printing\<close>

fun string_of_nat :: "nat \<Rightarrow> string" where
  "string_of_nat n =
     (if n < 10 then [char_of (48 + n)]
      else string_of_nat (n div 10) @ [char_of (48 + n mod 10)])"

declare string_of_nat.simps [simp del]

definition string_of_int :: "int \<Rightarrow> string" where
  "string_of_int i = (if i < 0 then CHR ''-'' # string_of_nat (nat (- i)) else string_of_nat (nat i))"

fun join :: "string \<Rightarrow> string list \<Rightarrow> string" where
  "join sep [] = []"
| "join sep [x] = x"
| "join sep (x # y # ys) = x @ sep @ join sep (y # ys)"

text \<open>
  The text that the engine prints for a number (\<^verbatim>\<open>Number::toString\<close>) is a parameter of the
  model: it is the decimal numeral for an integer below \<open>2\<^sup>5\<^sup>3\<close> in magnitude, and
  for larger numbers the shortest decimal that reads back as the same double, which the model
  does not compute.
\<close>

type_synonym number_text = "int \<Rightarrow> string"

text \<open>
  \<^verbatim>\<open>String(v)\<close>, which may throw. An array prints its elements joined by commas, with
  \<^verbatim>\<open>null\<close> and \<^verbatim>\<open>undefined\<close> elements printed as nothing, and throws when an element
  does. A plain object prints as \<^verbatim>\<open>[object Object]\<close> through the inherited
  \<^verbatim>\<open>toString\<close>; an object with an own \<^verbatim>\<open>toString\<close> property hides that method by a
  value that is not callable, and then no conversion to a primitive exists (the own or
  inherited \<^verbatim>\<open>valueOf\<close> gives none either): a TypeError.
\<close>

fun ToString :: "number_text \<Rightarrow> jsval \<Rightarrow> error + string"
  and ToString_elements :: "number_text \<Rightarrow> jsval list \<Rightarrow> error + string list" where
  "ToString num JUndefined = Inr ''undefined''"
| "ToString num JNull = Inr ''null''"
| "ToString num (JBool b) = Inr (if b then ''true'' else ''false'')"
| "ToString num (JNum n) = Inr (num n)"
| "ToString num (JStr s) = Inr s"
| "ToString num (JArr xs) =
     (case ToString_elements num xs of
        Inl e \<Rightarrow> Inl e
      | Inr ss \<Rightarrow> Inr (join '','' ss))"
| "ToString num (JObj kvs) =
     (if map_of kvs ''toString'' \<noteq> None
      then Inl (TypeError ''Cannot convert object to primitive value'')
      else Inr ''[object Object]'')"
| "ToString_elements num [] = Inr []"
| "ToString_elements num (x # xs) =
     (case (if nullish x then Inr [] else ToString num x) of
        Inl e \<Rightarrow> Inl e
      | Inr s \<Rightarrow>
          (case ToString_elements num xs of
             Inl e \<Rightarrow> Inl e
           | Inr ss \<Rightarrow> Inr (s # ss)))"

subsection \<open>Properties\<close>

text \<open>
  The own enumerable string-keyed properties of a value, in iteration order: what
  \<^verbatim>\<open>Object.values\<close> and the spread \<^verbatim>\<open>{...v}\<close> enumerate. An array has its indices,
  a string its characters, other primitives nothing.
\<close>

fun own_props :: "jsval \<Rightarrow> (string \<times> jsval) list" where
  "own_props (JObj kvs) = kvs"
| "own_props (JArr xs) = zip (map string_of_nat [0..<length xs]) xs"
| "own_props (JStr s) = zip (map string_of_nat [0..<length s]) (map (\<lambda>c. JStr [c]) s)"
| "own_props v = []"

text \<open>
  Reading \<^verbatim>\<open>v.k\<close> on a value that is neither \<^verbatim>\<open>null\<close> nor \<^verbatim>\<open>undefined\<close>. Besides the own
  properties only \<^verbatim>\<open>length\<close> is modelled; the program reads no other inherited property
  from untyped data.
\<close>

definition prop_of :: "jsval \<Rightarrow> string \<Rightarrow> jsval" where
  "prop_of v k =
     (case map_of (own_props v) k of
        Some x \<Rightarrow> x
      | None \<Rightarrow>
          (if k = ''length'' then
             (case v of JArr xs \<Rightarrow> JNum (int (length xs))
                      | JStr s \<Rightarrow> JNum (int (length s))
                      | _ \<Rightarrow> JUndefined)
           else JUndefined))"

text \<open>\<^verbatim>\<open>v.k\<close>: a TypeError on \<^verbatim>\<open>null\<close> and \<^verbatim>\<open>undefined\<close>.\<close>

definition get_prop :: "jsval \<Rightarrow> string \<Rightarrow> error + jsval" where
  "get_prop v k =
     (if nullish v then Inl (TypeError ''Cannot read properties of null or undefined'')
      else Inr (prop_of v k))"

text \<open>\<^verbatim>\<open>v?.k\<close> and \<^verbatim>\<open>v?.[0]\<close>: \<^verbatim>\<open>undefined\<close> instead of the TypeError.\<close>

definition opt_prop :: "jsval \<Rightarrow> string \<Rightarrow> jsval" where
  "opt_prop v k = (if nullish v then JUndefined else prop_of v k)"

text \<open>\<^verbatim>\<open>Object.values(v)\<close>: a TypeError on \<^verbatim>\<open>null\<close> and \<^verbatim>\<open>undefined\<close>.\<close>

definition Object_values :: "jsval \<Rightarrow> error + jsval list" where
  "Object_values v =
     (if nullish v then Inl (TypeError ''Cannot convert undefined or null to object'')
      else Inr (map snd (own_props v)))"

subsection \<open>String methods\<close>

definition toLowerCase_char :: "char \<Rightarrow> char" where
  "toLowerCase_char c =
     (let n = (of_char c :: nat) in if 65 \<le> n \<and> n \<le> 90 then char_of (n + 32) else c)"

definition toUpperCase_char :: "char \<Rightarrow> char" where
  "toUpperCase_char c =
     (let n = (of_char c :: nat) in if 97 \<le> n \<and> n \<le> 122 then char_of (n - 32) else c)"

definition toLowerCase :: "string \<Rightarrow> string" where
  "toLowerCase s = map toLowerCase_char s"

definition toUpperCase :: "string \<Rightarrow> string" where
  "toUpperCase s = map toUpperCase_char s"

text \<open>
  \<^verbatim>\<open>v.toLowerCase()\<close> on an untyped value: only a string has the method; reading it
  from \<^verbatim>\<open>null\<close>/\<^verbatim>\<open>undefined\<close> or calling it on anything else is a TypeError.
\<close>

definition call_toLowerCase :: "jsval \<Rightarrow> error + string" where
  "call_toLowerCase v =
     (case v of JStr s \<Rightarrow> Inr (toLowerCase s)
              | _ \<Rightarrow> Inl (TypeError ''toLowerCase is not a function''))"

text \<open>\<^verbatim>\<open>s.includes(t)\<close> on strings: \<open>t\<close> occurs in \<open>s\<close> at some position.\<close>

fun includes_str :: "string \<Rightarrow> string \<Rightarrow> bool" where
  "includes_str [] t = (t = [])"
| "includes_str (c # cs) t = (prefix t (c # cs) \<or> includes_str cs t)"

text \<open>White space and line terminators removed by \<^verbatim>\<open>trim\<close> (ASCII: TAB, LF, VT, FF, CR, SP).\<close>

definition isWhiteSpace :: "char \<Rightarrow> bool" where
  "isWhiteSpace c = ((of_char c :: nat) \<in> {9, 10, 11, 12, 13, 32})"

definition trim :: "string \<Rightarrow> string" where
  "trim s = rev (dropWhile isWhiteSpace (rev (dropWhile isWhiteSpace s)))"

text \<open>The character class \<^verbatim>\<open>[\n;,]\<close>.\<close>

definition isSeparator :: "char \<Rightarrow> bool" where
  "isSeparator c = (c = CHR 0x0A \<or> c = CHR '';'' \<or> c = CHR '','')"

text \<open>
  \<^verbatim>\<open>s.split(/[\n;,]+/)\<close>: the pieces between maximal runs of separators; a leading or
  trailing run leaves an empty first or last piece, and the empty string gives one empty piece.
\<close>

function split :: "string \<Rightarrow> string list" where
  "split s =
     (let piece = takeWhile (\<lambda>c. \<not> isSeparator c) s;
          rest = dropWhile (\<lambda>c. \<not> isSeparator c) s
      in if rest = [] then [piece] else piece # split (dropWhile isSeparator rest))"
  by pat_completeness auto
termination
proof (relation "measure length")
  show "wf (measure length)" by simp
next
  fix s :: string and piece rest :: string
  assume r: "rest = dropWhile (\<lambda>c. \<not> isSeparator c) s" and ne: "rest \<noteq> []"
  have "length (dropWhile isSeparator rest) < length rest"
  proof (cases rest)
    case Nil
    with ne show ?thesis by simp
  next
    case (Cons c cs)
    have "\<not> \<not> isSeparator (hd rest)"
      using hd_dropWhile [of "\<lambda>c. \<not> isSeparator c" s] r ne by simp
    then have "isSeparator c"
      using Cons by simp
    then have "length (dropWhile isSeparator rest) \<le> length cs"
      using Cons by (simp add: length_dropWhile_le)
    then show ?thesis using Cons by simp
  qed
  moreover have "length rest \<le> length s"
    using r by (simp add: length_dropWhile_le)
  ultimately show "(dropWhile isSeparator rest, s) \<in> measure length" by simp
qed

declare split.simps [simp del]

section \<open>Product card normalizers (FilterPanel.tsx, ProductCard part)\<close>

text \<open>
  \<^verbatim>\<open>getNormalizedBenefits\<close>: the two patterns are the tests \<^verbatim>\<open>Array.isArray\<close> and
  \<^verbatim>\<open>typeof benefits === "string"\<close>; \<^verbatim>\<open>benefits.slice(0, 3)\<close> is \<open>take 3\<close> and
  \<^verbatim>\<open>filter(Boolean)\<close> keeps the truthy pieces.
\<close>

definition getNormalizedBenefits :: "jsval \<Rightarrow> jsval list" where
  "getNormalizedBenefits benefits =
     (case benefits of
        JArr xs \<Rightarrow> take 3 xs
      | JStr s \<Rightarrow>
          (if length (trim s) > 0
           then take 3 (filter truthy (map (\<lambda>b. JStr (trim b)) (split s)))
           else [])
      | _ \<Rightarrow> [])"

text \<open>\<^verbatim>\<open>getImageSource\<close>: \<^verbatim>\<open>product.img || ""\<close>.\<close>

definition getImageSource :: "jsval \<Rightarrow> error + jsval" where
  "getImageSource product =
     (case get_prop product ''img'' of
        Inl e \<Rightarrow> Inl e
      | Inr img \<Rightarrow> Inr (js_or img (JStr [])))"

text \<open>
  \<^verbatim>\<open>getLifeStageLabel\<close>: \<^verbatim>\<open>charAt(0)\<close> is \<open>take 1\<close>, \<^verbatim>\<open>slice(1)\<close> is \<open>drop 1\<close>.
\<close>

definition getLifeStageLabel :: "jsval \<Rightarrow> error + string" where
  "getLifeStageLabel lifeStage =
     (if \<not> truthy lifeStage then Inr ''-''
      else
        (case call_toLowerCase lifeStage of
           Inl e \<Rightarrow> Inl e
         | Inr l \<Rightarrow>
             (if l = ''puppy-kitten'' then Inr ''Puppy/Kitten''
              else if l = ''adult'' then Inr ''Adult''
              else if l = ''senior'' then Inr ''Senior''
              else
                (case lifeStage of
                   JStr s \<Rightarrow> Inr (toUpperCase (take 1 s) @ drop 1 s)
                 | _ \<Rightarrow> Inl (TypeError ''charAt is not a function'')))))"

text \<open>
  \<^verbatim>\<open>getNormalizedSpecialCares\<close>; \<^verbatim>\<open>Object.values\<close> is applied to a value that is
  neither \<^verbatim>\<open>null\<close> nor \<^verbatim>\<open>undefined\<close>, so it cannot throw.
\<close>

definition getNormalizedSpecialCares :: "jsval \<Rightarrow> jsval list" where
  "getNormalizedSpecialCares specialcares =
     (if \<not> truthy specialcares then []
      else if isArray specialcares then (case specialcares of JArr xs \<Rightarrow> xs | _ \<Rightarrow> [])
      else if typeof specialcares = ''object'' \<and> specialcares \<noteq> JNull
      then map snd (own_props specialcares)
      else [])"

section \<open>Data model (types/product.ts)\<close>

record FilterState =
  foodType :: string
  petType :: string
  isPregnant :: bool
  isLactating :: bool
  lifeStage :: string
  specialCare :: "string list"
  searchTerm :: string

text \<open>
  Conformance of a run-time value to the interfaces \<^verbatim>\<open>SpecialCareItem\<close> and
  \<^verbatim>\<open>Product\<close>. An optional field may be missing or \<^verbatim>\<open>undefined\<close>; extra fields
  are allowed, as in TypeScript.
\<close>

fun is_number :: "jsval \<Rightarrow> bool" where
  "is_number (JNum n) = True"
| "is_number v = False"

fun is_boolean :: "jsval \<Rightarrow> bool" where
  "is_boolean (JBool b) = True"
| "is_boolean v = False"

definition is_optional :: "(jsval \<Rightarrow> bool) \<Rightarrow> jsval \<Rightarrow> bool" where
  "is_optional t v = (v = JUndefined \<or> t v)"

definition is_SpecialCareItem :: "jsval \<Rightarrow> bool" where
  "is_SpecialCareItem v =
     (case v of
        JObj kvs \<Rightarrow> is_string (prop_of v ''id'') \<and> is_string (prop_of v ''name'')
      | _ \<Rightarrow> False)"

definition is_specialcares :: "jsval \<Rightarrow> bool" where
  "is_specialcares v =
     (case v of
        JArr xs \<Rightarrow> list_all is_SpecialCareItem xs
      | JObj kvs \<Rightarrow> list_all is_SpecialCareItem (map snd kvs)
      | _ \<Rightarrow> False)"

definition is_benefits :: "jsval \<Rightarrow> bool" where
  "is_benefits v =
     (case v of
        JStr s \<Rightarrow> True
      | JArr xs \<Rightarrow> list_all is_string xs
      | _ \<Rightarrow> False)"

definition is_Product :: "jsval \<Rightarrow> bool" where
  "is_Product p =
     (case p of
        JObj kvs \<Rightarrow>
          is_optional (\<lambda>v. is_string v \<or> is_number v) (prop_of p ''id'') \<and>
          is_string (prop_of p ''name'') \<and>
          is_optional is_string (prop_of p ''description'') \<and>
          is_optional is_string (prop_of p ''image'') \<and>
          is_optional is_string (prop_of p ''img'') \<and>
          is_optional is_string (prop_of p ''img_thumbnail'') \<and>
          is_optional (\<lambda>v. v = JStr ''dry'' \<or> v = JStr ''wet'') (prop_of p ''productType'') \<and>
          is_optional is_string (prop_of p ''type'') \<and>
          is_optional (\<lambda>v. v = JStr ''dog'' \<or> v = JStr ''cat'') (prop_of p ''petType'') \<and>
          is_optional is_boolean (prop_of p ''forPregnant'') \<and>
          is_optional is_boolean (prop_of p ''forLactating'') \<and>
          is_optional is_string (prop_of p ''lifeStage'') \<and>
          is_optional is_benefits (prop_of p ''benefits'') \<and>
          is_optional is_specialcares (prop_of p ''specialcares'')
      | _ \<Rightarrow> False)"

section \<open>Filter predicate (App.tsx, the filter effect)\<close>

text \<open>\<^verbatim>\<open>xs.map(f)\<close> and \<^verbatim>\<open>xs.filter(f)\<close> with a callback that may throw.\<close>

fun map_result :: "('a \<Rightarrow> error + 'b) \<Rightarrow> 'a list \<Rightarrow> error + 'b list" where
  "map_result f [] = Inr []"
| "map_result f (x # xs) =
     (case f x of
        Inl e \<Rightarrow> Inl e
      | Inr y \<Rightarrow> (case map_result f xs of Inl e \<Rightarrow> Inl e | Inr ys \<Rightarrow> Inr (y # ys)))"

fun filter_result :: "('a \<Rightarrow> error + bool) \<Rightarrow> 'a list \<Rightarrow> error + 'a list" where
  "filter_result f [] = Inr []"
| "filter_result f (x # xs) =
     (case f x of
        Inl e \<Rightarrow> Inl e
      | Inr b \<Rightarrow>
          (case filter_result f xs of
             Inl e \<Rightarrow> Inl e
           | Inr ys \<Rightarrow> Inr (if b then x # ys else ys)))"

text \<open>The local \<^verbatim>\<open>productCareIds\<close> of the filter callback (lines 94 to 99).\<close>

definition productCareIds :: "jsval \<Rightarrow> error + jsval list" where
  "productCareIds specialcares =
     (if isArray specialcares then
        (case specialcares of
           JArr xs \<Rightarrow> map_result (\<lambda>sc. get_prop sc ''id'') xs
         | _ \<Rightarrow> Inr [])
      else if typeof specialcares = ''object'' \<and> specialcares \<noteq> JNull then
        (case Object_values specialcares of
           Inl e \<Rightarrow> Inl e
         | Inr vs \<Rightarrow> map_result (\<lambda>sc. get_prop sc ''id'') vs)
      else Inr [])"

text \<open>\<^verbatim>\<open>if (c) return false; rest\<close>, where evaluating \<open>c\<close> may throw.\<close>

definition return_false_if :: "error + bool \<Rightarrow> error + bool \<Rightarrow> error + bool" where
  "return_false_if c rest =
     (case c of Inl e \<Rightarrow> Inl e | Inr b \<Rightarrow> if b then Inr False else rest)"

text \<open>
  The callback given to \<^verbatim>\<open>products.filter\<close> (lines 87 to 103). A strict comparison
  \<^verbatim>\<open>!==\<close> of a value with a string is inequality with that string value, and
  \<^verbatim>\<open>productCareIds.includes(id)\<close> with a string \<open>id\<close> is membership of that string.
\<close>

definition matches :: "jsval \<Rightarrow> FilterState \<Rightarrow> error + bool" where
  "matches product F =
     return_false_if
       (if searchTerm F \<noteq> [] then
          (case get_prop product ''name'' of
             Inl e \<Rightarrow> Inl e
           | Inr nm \<Rightarrow>
               (case call_toLowerCase nm of
                  Inl e \<Rightarrow> Inl e
                | Inr low \<Rightarrow> Inr (\<not> includes_str low (toLowerCase (searchTerm F)))))
        else Inr False)
    (return_false_if
       (if petType F \<noteq> [] then
          (case get_prop product ''petType'' of
             Inl e \<Rightarrow> Inl e
           | Inr pt \<Rightarrow> Inr (pt \<noteq> JStr (petType F)))
        else Inr False)
    (return_false_if
       (if lifeStage F \<noteq> [] then
          (case get_prop product ''lifeStage'' of
             Inl e \<Rightarrow> Inl e
           | Inr ls \<Rightarrow> Inr (ls \<noteq> JStr (lifeStage F)))
        else Inr False)
    (return_false_if
       (if isPregnant F then
          (case get_prop product ''forPregnant'' of
             Inl e \<Rightarrow> Inl e
           | Inr fp \<Rightarrow> Inr (\<not> truthy fp))
        else Inr False)
    (return_false_if
       (if isLactating F then
          (case get_prop product ''forLactating'' of
             Inl e \<Rightarrow> Inl e
           | Inr fl \<Rightarrow> Inr (\<not> truthy fl))
        else Inr False)
    (return_false_if
       (if length (specialCare F) > 0 then
          (case get_prop product ''specialcares'' of
             Inl e \<Rightarrow> Inl e
           | Inr scs \<Rightarrow>
               (case productCareIds scs of
                  Inl e \<Rightarrow> Inl e
                | Inr ids \<Rightarrow>
                    Inr (\<not> list_ex (\<lambda>filterCareId. JStr filterCareId \<in> set ids)
                               (specialCare F))))
        else Inr False)
       (Inr True))))))"

section \<open>Filter form state (FilterPanel.tsx)\<close>

text \<open>
  A call \<^verbatim>\<open>updateFilter(key, value)\<close> with \<^verbatim>\<open>value: FilterState[K]\<close>: the key
  together with a value of that field's type.
\<close>

datatype filter_update =
    Upd_foodType string
  | Upd_petType string
  | Upd_isPregnant bool
  | Upd_isLactating bool
  | Upd_lifeStage string
  | Upd_specialCare "string list"
  | Upd_searchTerm string

text \<open>\<^verbatim>\<open>{ ...prev, [key]: value }\<close>.\<close>

fun assign :: "filter_update \<Rightarrow> FilterState \<Rightarrow> FilterState" where
  "assign (Upd_foodType v) prev = prev\<lparr>foodType := v\<rparr>"
| "assign (Upd_petType v) prev = prev\<lparr>petType := v\<rparr>"
| "assign (Upd_isPregnant v) prev = prev\<lparr>isPregnant := v\<rparr>"
| "assign (Upd_isLactating v) prev = prev\<lparr>isLactating := v\<rparr>"
| "assign (Upd_lifeStage v) prev = prev\<lparr>lifeStage := v\<rparr>"
| "assign (Upd_specialCare v) prev = prev\<lparr>specialCare := v\<rparr>"
| "assign (Upd_searchTerm v) prev = prev\<lparr>searchTerm := v\<rparr>"

definition updateFilter :: "filter_update \<Rightarrow> FilterState \<Rightarrow> FilterState" where
  "updateFilter u prev =
     (let newState = assign u prev in
      case u of
        Upd_petType v \<Rightarrow> if petType prev \<noteq> v then newState\<lparr>specialCare := []\<rparr> else newState
      | _ \<Rightarrow> newState)"

definition toggleSpecialCare :: "string \<Rightarrow> FilterState \<Rightarrow> FilterState" where
  "toggleSpecialCare careId prev =
     prev\<lparr>specialCare :=
       (if careId \<in> set (specialCare prev)
        then filter (\<lambda>i. i \<noteq> careId) (specialCare prev)
        else specialCare prev @ [careId])\<rparr>"

definition initialFilters :: FilterState where
  "initialFilters =
     \<lparr>foodType = ''dry'', petType = ''dog'', isPregnant = False, isLactating = False,
      lifeStage = [], specialCare = [], searchTerm = []\<rparr>"

section \<open>Remote calls\<close>

text \<open>
  What one \<^verbatim>\<open>fetch\<close> call yields: the promise rejects (transport failure), or it resolves to
  a response with a status and a body whose \<^verbatim>\<open>json()\<close> either parses or rejects.
  \<^verbatim>\<open>response.ok\<close> is true for a status from 200 to 299. A server says what the n-th request
  of a session yields; every loader counts the requests it issues.
\<close>

datatype http_outcome =
    Rejected error
  | Response nat "error + jsval"

definition ok :: "nat \<Rightarrow> bool" where
  "ok status = (200 \<le> status \<and> status \<le> 299)"

type_synonym server = "nat \<Rightarrow> http_outcome"

text \<open>
  \<^verbatim>\<open>try { body } catch (e) { handler } finally { fin }\<close> over a state: an action returns
  the exception it ends with, if any, and the state it leaves.
\<close>

type_synonym 's action = "'s \<Rightarrow> error option \<times> 's"

definition try_catch_finally ::
  "'s action \<Rightarrow> (error \<Rightarrow> 's action) \<Rightarrow> 's action \<Rightarrow> 's action" where
  "try_catch_finally body handler fin s =
     (let (r1, s1) = body s;
          (r2, s2) = (case r1 of None \<Rightarrow> (None, s1) | Some e \<Rightarrow> handler e s1);
          (r3, s3) = fin s2
      in (case r3 of Some e \<Rightarrow> Some e | None \<Rightarrow> r2, s3))"

section \<open>Special-care option loader (FilterPanel.tsx)\<close>

text \<open>The callback of \<^verbatim>\<open>list.map\<close> (lines 67 to 70).\<close>

definition optionOfItem :: "jsval \<Rightarrow> error + jsval" where
  "optionOfItem item =
     (case get_prop item ''specialcare_id'' of
        Inl e \<Rightarrow> Inl e
      | Inr i \<Rightarrow>
          (case get_prop item ''specialcare_name'' of
             Inl e \<Rightarrow> Inl e
           | Inr n \<Rightarrow> Inr (JObj [(''id'', i), (''name'', n)])))"

text \<open>The path \<^verbatim>\<open>json?.result?.[0]?.specialcares?.[0]?.list\<close> (line 61).\<close>

definition nestedList :: "jsval \<Rightarrow> jsval" where
  "nestedList json =
     opt_prop (opt_prop (opt_prop (opt_prop (opt_prop json
       ''result'') ''0'') ''specialcares'') ''0'') ''list''"

text \<open>
  \<^verbatim>\<open>fetchSpecialCareOptionsApi\<close>, given the server and the number of requests issued so
  far; it returns the options or the exception it throws, and the new number of requests.
  The \<^verbatim>\<open>catch\<close> block logs and rethrows, so an exception of the \<^verbatim>\<open>try\<close> block is
  the exception of the function. \<^verbatim>\<open>new Error(m)\<close> with a defined \<open>m\<close> has the message
  \<^verbatim>\<open>String(m)\<close>, and throws what that conversion throws.
\<close>

definition fetchSpecialCareOptionsApi ::
  "number_text \<Rightarrow> server \<Rightarrow> string \<Rightarrow> nat \<Rightarrow> (error + jsval list) \<times> nat" where
  "fetchSpecialCareOptionsApi num srv pet n =
     (if pet = [] then (Inr [], n)
      else
        ((case srv n of
            Rejected e \<Rightarrow> Inl e
          | Response status body \<Rightarrow>
              (if \<not> ok status then
                 (let errorData =
                        (case body of
                           Inl e \<Rightarrow> JObj [(''message'', JStr ''API request failed'')]
                         | Inr d \<Rightarrow> d)
                  in case get_prop errorData ''message'' of
                       Inl e \<Rightarrow> Inl e
                     | Inr m \<Rightarrow>
                         (case ToString num
                                 (js_or m (JStr (''Request failed with status '' @
                                                 num (int status)))) of
                            Inl e \<Rightarrow> Inl e
                          | Inr msg \<Rightarrow> Inl (Error msg)))
               else
                 (case body of
                    Inl e \<Rightarrow> Inl e
                  | Inr json \<Rightarrow>
                      (let list = nestedList json
                       in if \<not> isArray list then Inr []
                          else (case list of
                                  JArr items \<Rightarrow> map_result optionOfItem items
                                | _ \<Rightarrow> Inr []))))),
         Suc n))"

record panel_state =
  internalFilters :: FilterState
  specialCareOptions :: "jsval list"
  isLoadingSpecialCare :: bool
  errorSpecialCare :: "string option"
  calls :: nat

text \<open>
  The effect that runs when \<^verbatim>\<open>internalFilters.petType\<close> changes (lines 95 to 115), with
  \<^verbatim>\<open>loadOptions\<close> inlined. \<^verbatim>\<open>null\<close> for the error message is \<open>None\<close>.
\<close>

definition loadOptions :: "number_text \<Rightarrow> server \<Rightarrow> panel_state action" where
  "loadOptions num srv st =
     (if petType (internalFilters st) = [] then (None, st\<lparr>specialCareOptions := []\<rparr>)
      else
        try_catch_finally
          (\<lambda>s. case fetchSpecialCareOptionsApi num srv (petType (internalFilters s)) (calls s) of
                  (Inr options, n) \<Rightarrow> (None, s\<lparr>calls := n, specialCareOptions := options\<rparr>)
                | (Inl e, n) \<Rightarrow> (Some e, s\<lparr>calls := n\<rparr>))
          (\<lambda>err s. (None, s\<lparr>errorSpecialCare :=
                       Some (if message err \<noteq> [] then message err else ''Failed to load options'')\<rparr>))
          (\<lambda>s. (None, s\<lparr>isLoadingSpecialCare := False\<rparr>))
          (st\<lparr>isLoadingSpecialCare := True, errorSpecialCare := None\<rparr>))"

text \<open>
  What the special-care panel renders (lines 241 to 268): the error text when the message is
  truthy, and the option check boxes when nothing is loading and there is no error.
\<close>

definition shownError :: "panel_state \<Rightarrow> string option" where
  "shownError st =
     (case errorSpecialCare st of
        None \<Rightarrow> None
      | Some m \<Rightarrow> if m \<noteq> [] then Some m else None)"

definition shownOptions :: "panel_state \<Rightarrow> jsval list" where
  "shownOptions st =
     (if \<not> isLoadingSpecialCare st \<and> shownError st = None then specialCareOptions st else [])"

section \<open>Product loader (App.tsx)\<close>

text \<open>
  The callback of \<^verbatim>\<open>Object.values(productsObj).map\<close> (lines 66 to 74), for the requested
  food type. The object literal spreads the raw record and then sets six keys; a key that the
  raw record has keeps its place, a new key goes to the end. The first read \<^verbatim>\<open>prod.id\<close>
  throws when the raw record is \<^verbatim>\<open>null\<close> or \<^verbatim>\<open>undefined\<close>, and
  \<^verbatim>\<open>String(prod.id ?? "")\<close> throws when the id has no primitive value; nothing after
  that can throw.
\<close>

definition productOfRaw :: "number_text \<Rightarrow> string \<Rightarrow> jsval \<Rightarrow> error + jsval" where
  "productOfRaw num requested rawProd =
     (case get_prop rawProd ''id'' of
        Inl e \<Rightarrow> Inl e
      | Inr raw_id \<Rightarrow>
          (case ToString num (js_coalesce raw_id (JStr [])) of
             Inl e \<Rightarrow> Inl e
           | Inr id_string \<Rightarrow>
               Inr (JObj
                 (AList.update ''specialcares'' (prop_of rawProd ''specialcares'')
                 (AList.update ''lifeStage''
                    (if truthy (prop_of rawProd ''lifeStages'')
                     then js_coalesce
                            (case map snd (own_props (prop_of rawProd ''lifeStages'')) of
                               [] \<Rightarrow> JUndefined
                             | v # vs \<Rightarrow> v)
                            (JStr [])
                     else JStr [])
                 (AList.update ''petType'' (js_or (prop_of rawProd ''type'') (JStr []))
                 (AList.update ''productType'' (JStr requested)
                 (AList.update ''name'' (js_or (prop_of rawProd ''name'') (JStr ''Unknown Product''))
                 (AList.update ''id'' (JStr id_string)
                    (own_props rawProd))))))))))"

text \<open>
  The \<^verbatim>\<open>try\<close> block of \<^verbatim>\<open>fetchProducts\<close> after the request (lines 63 to 74): the
  product array, or the exception thrown.
\<close>

definition productsOfOutcome ::
  "number_text \<Rightarrow> string \<Rightarrow> http_outcome \<Rightarrow> error + jsval list" where
  "productsOfOutcome num requested outcome =
     (case outcome of
        Rejected e \<Rightarrow> Inl e
      | Response status body \<Rightarrow>
          (if \<not> ok status then Inl (Error [])
           else
             (case body of
                Inl e \<Rightarrow> Inl e
              | Inr data \<Rightarrow>
                  (let productsObj = js_or (opt_prop (opt_prop data ''result'') ''products'') (JObj [])
                   in case Object_values productsObj of
                        Inl e \<Rightarrow> Inl e
                      | Inr raws \<Rightarrow> map_result (productOfRaw num requested) raws))))"

record app_state =
  filters :: FilterState
  products :: "jsval list"
  searchResults :: "jsval list"
  isLoading :: bool
  hasSearched :: bool
  requests :: nat

text \<open>The effect that runs when \<^verbatim>\<open>filters.foodType\<close> changes (lines 37 to 84).\<close>

definition fetchProducts :: "number_text \<Rightarrow> server \<Rightarrow> app_state action" where
  "fetchProducts num srv st =
     (if foodType (filters st) = [] then (None, st\<lparr>products := []\<rparr>)
      else
        try_catch_finally
          (\<lambda>s. let outcome = srv (requests s);
                    s' = s\<lparr>requests := Suc (requests s)\<rparr>
                in case productsOfOutcome num (foodType (filters s)) outcome of
                     Inl e \<Rightarrow> (Some e, s')
                   | Inr productsArr \<Rightarrow> (None, s'\<lparr>products := productsArr\<rparr>))
          (\<lambda>e s. (None, s\<lparr>products := []\<rparr>))
          (\<lambda>s. (None, s\<lparr>isLoading := False, hasSearched := True\<rparr>))
          (st\<lparr>isLoading := True\<rparr>))"

text \<open>The effect that runs when the products or the filters change (lines 86 to 105).\<close>

definition filterEffect :: "app_state action" where
  "filterEffect st =
     (case filter_result (\<lambda>product. matches product (filters st)) (products st) of
        Inl e \<Rightarrow> (Some e, st)
      | Inr results \<Rightarrow> (None, st\<lparr>searchResults := results\<rparr>))"

text \<open>
  What the product card shows in the image slot (ProductCard, lines 390 to 400):
  the image when \<^verbatim>\<open>imgSrc\<close> is truthy, the "No Image" placeholder otherwise.
\<close>

definition imageShown :: "jsval \<Rightarrow> error + bool" where
  "imageShown product =
     (case getImageSource product of
        Inl e \<Rightarrow> Inl e
      | Inr imgSrc \<Rightarrow> Inr (truthy imgSrc))"

section \<open>The specification's wording\<close>

text \<open>
  The definitions of this section follow the specification, not the code; the theorems
  below compare the code with them.
\<close>

text \<open>The string held by a string value (the empty string for anything else).\<close>

definition str_of :: "jsval \<Rightarrow> string" where
  "str_of v = (case v of JStr s \<Rightarrow> s | _ \<Rightarrow> [])"

text \<open>
  Splitting on newline, semicolon and comma: every separator character ends a piece, so
  two adjacent separators have an empty piece between them.
\<close>

fun spec_split :: "string \<Rightarrow> string list" where
  "spec_split [] = [[]]"
| "spec_split (c # cs) =
     (if isSeparator c then [] # spec_split cs
      else (case spec_split cs of [] \<Rightarrow> [[c]] | p # ps \<Rightarrow> (c # p) # ps))"

text \<open>Split, trim each piece, drop empty pieces, take the first 3.\<close>

definition spec_benefits_of_string :: "string \<Rightarrow> string list" where
  "spec_benefits_of_string s = take 3 (filter (\<lambda>p. p \<noteq> []) (map trim (spec_split s)))"

text \<open>
  The six criteria of the filter predicate; each one applies only when its filter is set.
  The name contains the search term when both are lower-cased; the last criterion asks for
  at least one selected id among the ids of the normalized special cares.
\<close>

definition spec_criteria :: "jsval \<Rightarrow> FilterState \<Rightarrow> bool" where
  "spec_criteria P F =
     ((searchTerm F \<noteq> [] \<longrightarrow>
         sublist (toLowerCase (searchTerm F)) (toLowerCase (str_of (prop_of P ''name'')))) \<and>
      (petType F \<noteq> [] \<longrightarrow> prop_of P ''petType'' = JStr (petType F)) \<and>
      (lifeStage F \<noteq> [] \<longrightarrow> prop_of P ''lifeStage'' = JStr (lifeStage F)) \<and>
      (isPregnant F \<longrightarrow> prop_of P ''forPregnant'' = JBool True) \<and>
      (isLactating F \<longrightarrow> prop_of P ''forLactating'' = JBool True) \<and>
      (specialCare F \<noteq> [] \<longrightarrow>
         (\<exists>i\<in>set (specialCare F).
            JStr i \<in> set (map (\<lambda>sc. prop_of sc ''id'')
                            (getNormalizedSpecialCares (prop_of P ''specialcares''))))))"

text \<open>
  The failure modes of a remote call: transport failure, non-success status, or a body that
  does not parse.
\<close>

definition spec_fetch_failed :: "http_outcome \<Rightarrow> bool" where
  "spec_fetch_failed outcome =
     (case outcome of
        Rejected e \<Rightarrow> True
      | Response status body \<Rightarrow> \<not> ok status \<or> (case body of Inl e \<Rightarrow> True | Inr d \<Rightarrow> False))"

section \<open>Example data\<close>

definition lowFat :: jsval where
  "lowFat = JObj [(''id'', JStr ''1''), (''name'', JStr ''Low Fat'')]"

definition renal :: jsval where
  "renal = JObj [(''id'', JStr ''2''), (''name'', JStr ''Renal'')]"

text \<open>A dog product whose special cares arrive as a keyed mapping.\<close>

definition puppyProduct :: jsval where
  "puppyProduct =
     JObj [(''id'', JStr ''7''), (''name'', JStr ''Farmina N&D Puppy''),
           (''productType'', JStr ''dry''), (''petType'', JStr ''dog''),
           (''lifeStage'', JStr ''puppy''), (''forPregnant'', JBool True),
           (''forLactating'', JBool True),
           (''specialcares'', JObj [(''x'', lowFat), (''y'', renal)])]"

text \<open>The same product with the special cares as an array, and with none at all.\<close>

definition arrayProduct :: jsval where
  "arrayProduct =
     JObj [(''id'', JNum 8), (''name'', JStr ''N&D Mini''),
           (''petType'', JStr ''dog''), (''lifeStage'', JStr ''puppy''),
           (''forPregnant'', JBool True), (''forLactating'', JBool True),
           (''specialcares'', JArr [lowFat])]"

definition plainProduct :: jsval where
  "plainProduct =
     JObj [(''name'', JStr ''N&D Ocean''), (''image'', JStr ''ocean.png''),
           (''img_thumbnail'', JStr ''ocean_small.png'')]"

definition puppyFilters :: FilterState where
  "puppyFilters =
     \<lparr>foodType = ''dry'', petType = ''dog'', isPregnant = True, isLactating = True,
      lifeStage = ''puppy'', specialCare = [''9'', ''2''], searchTerm = ''n&d''\<rparr>"

definition app0 :: app_state where
  "app0 =
     \<lparr>filters = puppyFilters, products = [puppyProduct, arrayProduct, plainProduct],
      searchResults = [], isLoading = False, hasSearched = False, requests = 0\<rparr>"

definition panel0 :: panel_state where
  "panel0 =
     \<lparr>internalFilters = initialFilters, specialCareOptions = [lowFat],
      isLoadingSpecialCare = False, errorSpecialCare = None, calls = 0\<rparr>"

text \<open>A server that is unreachable, one that answers 500, and one whose answers are empty objects.\<close>

definition offline :: server where
  "offline = (\<lambda>n. Rejected (TypeError ''Failed to fetch''))"

definition failing :: server where
  "failing = (\<lambda>n. Response 500 (Inl (SyntaxError ''Unexpected end of JSON input'')))"

definition shapeless :: server where
  "shapeless = (\<lambda>n. Response 200 (Inr (JObj [])))"

text \<open>A raw catalog record without a name, and a catalog that holds it.\<close>

definition rawRecord :: jsval where
  "rawRecord =
     JObj [(''id'', JNum 42), (''name'', JStr []), (''productType'', JStr ''wet''),
           (''type'', JStr ''dog'')]"

definition catalog :: server where
  "catalog =
     (\<lambda>n. Response 200
        (Inr (JObj [(''result'', JObj [(''products'', JObj [(''p42'', rawRecord)])])])))"

definition loadedRecord :: jsval where
  "loadedRecord =
     JObj [(''id'', JStr ''42''), (''name'', JStr ''Unknown Product''),
           (''productType'', JStr ''dry''), (''type'', JStr ''dog''),
           (''petType'', JStr ''dog''), (''lifeStage'', JStr []),
           (''specialcares'', JUndefined)]"

definition loadedEmpty :: jsval where
  "loadedEmpty =
     JObj [(''id'', JStr []), (''name'', JStr ''Unknown Product''),
           (''productType'', JStr ''wet''), (''petType'', JStr []),
           (''lifeStage'', JStr []), (''specialcares'', JUndefined)]"

text \<open>
  Decimal numerals (\<open>string_of_int\<close>) are what the engine prints for the small integers of
  these examples. A raw record whose name is a number, the product made from it, a raw record
  whose id has no primitive value, and a catalog that holds the latter.
\<close>

definition numericNameRecord :: jsval where
  "numericNameRecord = JObj [(''id'', JNum 1), (''name'', JNum 5)]"

definition loadedNumericName :: jsval where
  "loadedNumericName =
     JObj [(''id'', JStr ''1''), (''name'', JNum 5), (''productType'', JStr ''dry''),
           (''petType'', JStr []), (''lifeStage'', JStr []), (''specialcares'', JUndefined)]"

definition hostileRecord :: jsval where
  "hostileRecord = JObj [(''id'', JObj [(''toString'', JNum 1)]), (''name'', JStr ''X'')]"

definition hostileCatalog :: server where
  "hostileCatalog =
     (\<lambda>n. Response 200
        (Inr (JObj [(''result'',
                JObj [(''products'', JObj [(''p42'', rawRecord), (''bad'', hostileRecord)])])])))"

section \<open>Properties of the value layer\<close>

lemma prop_of_JObj:
  "prop_of (JObj kvs) k = (case map_of kvs k of Some x \<Rightarrow> x | None \<Rightarrow> JUndefined)"
  by (simp add: prop_of_def split: option.splits)

lemma prop_of_update:
  "prop_of (JObj (AList.update k v kvs)) k' = (if k' = k then v else prop_of (JObj kvs) k')"
  by (simp add: prop_of_JObj update_conv')

lemma includes_str_sublist: "includes_str s t = sublist t s"
  by (induction s) (simp_all add: sublist_Cons_right)

lemma map_result_get_prop:
  "list_all (\<lambda>x. \<not> nullish x) xs \<Longrightarrow>
   map_result (\<lambda>sc. get_prop sc k) xs = Inr (map (\<lambda>sc. prop_of sc k) xs)"
  by (induction xs) (simp_all add: get_prop_def)

lemma map_result_set:
  "map_result f xs = Inr ys \<Longrightarrow> y \<in> set ys \<Longrightarrow> \<exists>x\<in>set xs. f x = Inr y"
proof (induction xs arbitrary: ys)
  case Nil
  then show ?case by simp
next
  case (Cons x xs)
  then show ?case
    by (auto split: sum.splits)
qed

lemma filter_result_total:
  "\<forall>x\<in>set xs. \<exists>b. f x = Inr b \<Longrightarrow>
   filter_result f xs = Inr (filter (\<lambda>x. f x = Inr True) xs)"
  by (induction xs) auto

section \<open>Splitting and trimming\<close>

lemma spec_split_nonempty: "spec_split s \<noteq> []"
  by (induction s) (auto split: list.splits)

lemma spec_split_no_sep:
  "\<forall>c\<in>set xs. \<not> isSeparator c \<Longrightarrow>
   spec_split (xs @ ys) = (xs @ hd (spec_split ys)) # tl (spec_split ys)"
proof (induction xs)
  case Nil
  then show ?case using spec_split_nonempty [of ys] by simp
next
  case (Cons x xs)
  then show ?case by simp
qed

lemma spec_split_seps:
  "\<forall>c\<in>set xs. isSeparator c \<Longrightarrow>
   spec_split (xs @ ys) = replicate (length xs) [] @ spec_split ys"
  by (induction xs) auto

lemma trim_Nil: "trim [] = []"
  by (simp add: trim_def)

lemma filter_trim_replicate:
  "filter (\<lambda>p. p \<noteq> []) (map trim (replicate n [] @ ps)) = filter (\<lambda>p. p \<noteq> []) (map trim ps)"
  by (induction n) (simp_all add: trim_Nil)

text \<open>
  The code splits at runs of separators, the specification at every separator; the pieces
  that survive trimming and the removal of empty pieces are the same.
\<close>

lemma split_pieces:
  "filter (\<lambda>p. p \<noteq> []) (map trim (split s)) = filter (\<lambda>p. p \<noteq> []) (map trim (spec_split s))"
proof (induction s rule: split.induct)
  case (1 s)
  define piece where "piece = takeWhile (\<lambda>c. \<not> isSeparator c) s"
  define rest where "rest = dropWhile (\<lambda>c. \<not> isSeparator c) s"
  have s: "s = piece @ rest" by (simp add: piece_def rest_def)
  have unf: "split s = (if rest = [] then [piece] else piece # split (dropWhile isSeparator rest))"
    unfolding piece_def rest_def by (subst split.simps) (simp only: Let_def)
  have np: "\<forall>c\<in>set piece. \<not> isSeparator c"
    unfolding piece_def by (auto dest: set_takeWhileD)
  show ?case
  proof (cases "rest = []")
    case True
    then have "split s = [piece]"
      using unf by simp
    moreover have "spec_split s = [piece]"
      using spec_split_no_sep [OF np, of "[]"] True s by simp
    ultimately show ?thesis by simp
  next
    case False
    define seps where "seps = takeWhile isSeparator rest"
    define rest' where "rest' = dropWhile isSeparator rest"
    have r: "rest = seps @ rest'" by (simp add: seps_def rest'_def)
    have ns: "\<forall>c\<in>set seps. isSeparator c"
      unfolding seps_def by (auto dest: set_takeWhileD)
    have sp: "split s = piece # split rest'"
      using False unf by (simp add: rest'_def)
    have "\<not> \<not> isSeparator (hd rest)"
      using hd_dropWhile [of "\<lambda>c. \<not> isSeparator c" s] False by (simp add: rest_def)
    then have "seps \<noteq> []"
      using False by (cases rest) (simp_all add: seps_def)
    then obtain n where n: "length seps = Suc n" by (cases seps) auto
    have "spec_split rest = replicate (Suc n) [] @ spec_split rest'"
      using spec_split_seps [OF ns, of rest'] r n by simp
    then have "spec_split s = piece # replicate n [] @ spec_split rest'"
      using spec_split_no_sep [OF np, of rest] s by simp
    moreover have "filter (\<lambda>p. p \<noteq> []) (map trim (split rest')) =
                   filter (\<lambda>p. p \<noteq> []) (map trim (spec_split rest'))"
      using "1.IH" [OF piece_def rest_def False] by (simp add: rest'_def)
    ultimately show ?thesis
      using sp filter_trim_replicate [of n "spec_split rest'"] by simp
  qed
qed

lemma trim_empty_iff: "trim s = [] \<longleftrightarrow> (\<forall>c\<in>set s. isWhiteSpace c)"
proof
  assume "trim s = []"
  then have a: "\<forall>c\<in>set (dropWhile isWhiteSpace s). isWhiteSpace c"
    by (simp add: trim_def)
  have "dropWhile isWhiteSpace s = []"
  proof (rule ccontr)
    assume ne: "dropWhile isWhiteSpace s \<noteq> []"
    then have "\<not> isWhiteSpace (hd (dropWhile isWhiteSpace s))" by (rule hd_dropWhile)
    moreover have "hd (dropWhile isWhiteSpace s) \<in> set (dropWhile isWhiteSpace s)"
      using ne by simp
    ultimately show False using a by blast
  qed
  then show "\<forall>c\<in>set s. isWhiteSpace c" by simp
next
  assume "\<forall>c\<in>set s. isWhiteSpace c"
  then show "trim s = []" by (auto simp add: trim_def dest: set_dropWhileD)
qed

lemma spec_split_chars: "p \<in> set (spec_split s) \<Longrightarrow> set p \<subseteq> set s"
proof (induction s arbitrary: p)
  case Nil
  then show ?case by simp
next
  case (Cons c cs)
  show ?case
  proof (cases "isSeparator c")
    case True
    with Cons show ?thesis by auto
  next
    case False
    obtain q qs where q: "spec_split cs = q # qs"
      using spec_split_nonempty [of cs] by (cases "spec_split cs") auto
    with False Cons.prems have "p = c # q \<or> p \<in> set qs" by simp
    moreover have "set q \<subseteq> set cs" using Cons.IH [of q] q by simp
    moreover have "p \<in> set qs \<Longrightarrow> set p \<subseteq> set cs" using Cons.IH [of p] q by simp
    ultimately show ?thesis by auto
  qed
qed

text \<open>The guard \<^verbatim>\<open>benefits.trim().length > 0\<close> changes nothing: a blank string has no piece.\<close>

lemma blank_no_pieces:
  assumes "trim s = []"
  shows "filter (\<lambda>p. p \<noteq> []) (map trim (spec_split s)) = []"
proof -
  have "\<forall>c\<in>set s. isWhiteSpace c" using assms by (simp add: trim_empty_iff)
  then have "\<forall>p\<in>set (spec_split s). trim p = []"
    using spec_split_chars trim_empty_iff by blast
  then show ?thesis by (simp add: filter_empty_conv)
qed

lemma filter_truthy_JStr:
  "filter truthy (map (\<lambda>b. JStr (trim b)) ps) = map JStr (filter (\<lambda>p. p \<noteq> []) (map trim ps))"
  by (induction ps) simp_all

lemma benefits_string:
  "getNormalizedBenefits (JStr s) = map JStr (spec_benefits_of_string s)"
proof (cases "trim s = []")
  case True
  then show ?thesis
    by (simp add: getNormalizedBenefits_def spec_benefits_of_string_def blank_no_pieces)
next
  case False
  then show ?thesis
    by (simp add: getNormalizedBenefits_def spec_benefits_of_string_def filter_truthy_JStr
        split_pieces take_map)
qed

section \<open>The normalizers\<close>

text \<open>
  Claim C5. The benefits normalizer returns the first 3 elements of a sequence in their
  order; for a string it returns what the specification's split, trim, drop-empty and
  take-3 give; for any other input it returns the empty sequence. A 5-element sequence
  gives its first 3 elements, and \<^verbatim>\<open>"a; b,c\nd"\<close> gives a, b, c. The function has no
  failing branch: each method is called under the type test that guarantees it.
\<close>

theorem getNormalizedBenefits_spec:
  "(case benefits of
      JArr xs \<Rightarrow> getNormalizedBenefits benefits = take 3 xs
    | JStr s \<Rightarrow> getNormalizedBenefits benefits = map JStr (spec_benefits_of_string s)
    | _ \<Rightarrow> getNormalizedBenefits benefits = []) \<and>
   getNormalizedBenefits (JArr [a, b, c, d, e]) = [a, b, c] \<and>
   getNormalizedBenefits (JStr ''a; b,c\<newline>d'') = [JStr ''a'', JStr ''b'', JStr ''c'']"
proof -
  have "getNormalizedBenefits (JStr ''a; b,c\<newline>d'') = [JStr ''a'', JStr ''b'', JStr ''c'']"
    by code_simp
  moreover have "getNormalizedBenefits (JArr [a, b, c, d, e]) = [a, b, c]"
    by (simp add: getNormalizedBenefits_def)
  moreover have "(case benefits of
      JArr xs \<Rightarrow> getNormalizedBenefits benefits = take 3 xs
    | JStr s \<Rightarrow> getNormalizedBenefits benefits = map JStr (spec_benefits_of_string s)
    | _ \<Rightarrow> getNormalizedBenefits benefits = [])"
    by (cases benefits) (simp_all add: benefits_string, simp_all add: getNormalizedBenefits_def)
  ultimately show ?thesis by simp
qed

text \<open>
  Claim C6. The life-stage label of an absent or empty input is "-"; a non-empty string
  that lower-cases to "puppy-kitten", "adult" or "senior" gets the fixed label; any other
  non-empty string is returned with its first character upper-cased and the rest unchanged.
\<close>

theorem getLifeStageLabel_spec:
  "getLifeStageLabel JUndefined = Inr ''-'' \<and>
   getLifeStageLabel (JStr []) = Inr ''-'' \<and>
   (s \<noteq> [] \<longrightarrow>
      getLifeStageLabel (JStr s) =
        Inr (if toLowerCase s = ''puppy-kitten'' then ''Puppy/Kitten''
             else if toLowerCase s = ''adult'' then ''Adult''
             else if toLowerCase s = ''senior'' then ''Senior''
             else toUpperCase_char (hd s) # tl s))"
  by (cases s) (simp_all add: getLifeStageLabel_def call_toLowerCase_def toUpperCase_def)

theorem getLifeStageLabel_spec_witness:
  "getLifeStageLabel (JStr ''SENIOR'') = Inr ''Senior'' \<and>
   getLifeStageLabel (JStr ''giant'') = Inr ''Giant''"
proof -
  have a: "toLowerCase ''SENIOR'' = ''senior''" by code_simp
  have b: "toLowerCase ''giant'' = ''giant''" by code_simp
  have c: "toUpperCase_char (CHR ''g'') = CHR ''G''" by code_simp
  show ?thesis
    using getLifeStageLabel_spec [of "''SENIOR''"] getLifeStageLabel_spec [of "''giant''"]
    by (simp add: a b c)
qed

text \<open>
  Claim C7. The special-care normalizer returns a sequence unchanged and the values of a
  mapping in its iteration order; for an absent input or any other shape it returns the
  empty sequence. The mapping with the two entries "Low Fat" and "Renal" gives the
  2-element sequence of both.
\<close>

theorem getNormalizedSpecialCares_spec:
  "(case v of
      JArr xs \<Rightarrow> getNormalizedSpecialCares v = xs
    | JObj kvs \<Rightarrow> getNormalizedSpecialCares v = map snd kvs
    | _ \<Rightarrow> getNormalizedSpecialCares v = []) \<and>
   getNormalizedSpecialCares (JObj [(''x'', lowFat), (''y'', renal)]) = [lowFat, renal]"
  by (cases v) (simp_all add: getNormalizedSpecialCares_def)

section \<open>The filter predicate\<close>

lemma SpecialCareItem_not_nullish: "is_SpecialCareItem v \<Longrightarrow> \<not> nullish v"
  by (cases v) (simp_all add: is_SpecialCareItem_def)

lemma SpecialCareItems_not_nullish:
  "list_all is_SpecialCareItem xs \<Longrightarrow> list_all (\<lambda>x. \<not> nullish x) xs"
  by (induction xs) (simp_all add: SpecialCareItem_not_nullish)

text \<open>
  On a well-typed field the ids collected by the filter callback are the ids of the
  normalized special cares.
\<close>

lemma productCareIds_typed:
  assumes "is_optional is_specialcares v"
  shows "productCareIds v = Inr (map (\<lambda>sc. prop_of sc ''id'') (getNormalizedSpecialCares v))"
proof (cases v)
  case (JArr xs)
  with assms have "list_all is_SpecialCareItem xs"
    by (simp add: is_optional_def is_specialcares_def)
  then show ?thesis
    using JArr
    by (simp add: productCareIds_def getNormalizedSpecialCares_def map_result_get_prop
        SpecialCareItems_not_nullish)
next
  case (JObj kvs)
  with assms have "list_all is_SpecialCareItem (map snd kvs)"
    by (simp add: is_optional_def is_specialcares_def)
  then show ?thesis
    using JObj
    by (simp add: productCareIds_def getNormalizedSpecialCares_def Object_values_def
        map_result_get_prop SpecialCareItems_not_nullish)
qed (use assms in \<open>simp_all add: is_optional_def is_specialcares_def productCareIds_def
      getNormalizedSpecialCares_def\<close>)

lemma truthy_optional_boolean:
  "is_optional is_boolean v \<Longrightarrow> truthy v = (v = JBool True)"
  by (cases v) (simp_all add: is_optional_def)

lemma is_Product_fields:
  assumes "is_Product P"
  shows "\<not> nullish P"
    and "is_string (prop_of P ''name'')"
    and "is_optional is_boolean (prop_of P ''forPregnant'')"
    and "is_optional is_boolean (prop_of P ''forLactating'')"
    and "is_optional is_specialcares (prop_of P ''specialcares'')"
  using assms by (cases P; simp add: is_Product_def)+

lemma list_ex_ids:
  "list_ex (\<lambda>i. JStr i \<in> set ids) sel = (\<exists>i\<in>set sel. JStr i \<in> set ids)"
  by (simp add: list_ex_iff)

lemma matches_typed:
  assumes "is_Product P"
  shows "matches P F = Inr (spec_criteria P F)"
proof -
  note f = is_Product_fields [OF assms]
  obtain nm where nm: "prop_of P ''name'' = JStr nm"
    using f(2) by (cases "prop_of P ''name''") simp_all
  have g: "\<And>k. get_prop P k = Inr (prop_of P k)"
    using f(1) by (simp add: get_prop_def)
  show ?thesis
    unfolding matches_def spec_criteria_def
    by (simp add: g nm call_toLowerCase_def return_false_if_def includes_str_sublist str_of_def
        truthy_optional_boolean [OF f(3)] truthy_optional_boolean [OF f(4)]
        productCareIds_typed [OF f(5)] list_ex_ids del: set_map)
qed

text \<open>
  Claim C1. For every product that conforms to the \<^verbatim>\<open>Product\<close> interface and every
  filter state, the filter predicate returns exactly the conjunction of the enabled
  criteria: it is false as soon as one enabled criterion fails, whatever the others are,
  and true only when all of them pass. The criteria are: the lower-cased name contains the
  lower-cased search term; petType equals the selected pet type; the raw lifeStage equals
  the selected life stage; forPregnant is true; forLactating is true; at least one selected
  special-care id is among the ids of the normalized special cares.
\<close>

theorem filter_predicate_criteria:
  assumes "is_Product P"
  shows "matches P F = Inr (spec_criteria P F)"
  using assms by (rule matches_typed)

theorem filter_predicate_criteria_witness:
  "is_Product puppyProduct \<and> spec_criteria puppyProduct puppyFilters \<and>
   matches puppyProduct puppyFilters = Inr True \<and>
   is_Product arrayProduct \<and> \<not> spec_criteria arrayProduct puppyFilters \<and>
   matches arrayProduct puppyFilters = Inr False"
proof -
  have p: "is_Product puppyProduct" by code_simp
  have c: "spec_criteria puppyProduct puppyFilters" by code_simp
  have q: "is_Product arrayProduct" by code_simp
  have d: "\<not> spec_criteria arrayProduct puppyFilters" by code_simp
  show ?thesis
    using filter_predicate_criteria [OF p, of puppyFilters]
      filter_predicate_criteria [OF q, of puppyFilters] p c q d
    by simp
qed

text \<open>
  Claim C8. On products that conform to the \<^verbatim>\<open>Product\<close> interface (whose special cares
  are absent, a sequence or a keyed mapping) the filter predicate returns a boolean and never
  throws; the filter effect throws nothing, changes only the search results and leaves the
  products and the filters as they were, and running it again gives the same result.
\<close>

theorem filter_total_and_pure:
  assumes "list_all is_Product (products st)"
  shows "(\<forall>P\<in>set (products st). \<exists>b. matches P (filters st) = Inr b) \<and>
         filterEffect st =
           (None, st\<lparr>searchResults :=
                        filter (\<lambda>P. matches P (filters st) = Inr True) (products st)\<rparr>) \<and>
         filterEffect (snd (filterEffect st)) = filterEffect st"
proof -
  have t: "\<forall>P\<in>set (products st). \<exists>b. matches P (filters st) = Inr b"
    using assms matches_typed by (auto simp add: list_all_iff)
  then have r: "filter_result (\<lambda>P. matches P (filters st)) (products st) =
      Inr (filter (\<lambda>P. matches P (filters st) = Inr True) (products st))"
    by (rule filter_result_total)
  then have e: "filterEffect st =
           (None, st\<lparr>searchResults :=
                        filter (\<lambda>P. matches P (filters st) = Inr True) (products st)\<rparr>)"
    by (simp add: filterEffect_def)
  have "filterEffect (snd (filterEffect st)) = filterEffect st"
    using r by (simp add: e) (simp add: filterEffect_def)
  with t e show ?thesis by simp
qed

theorem filter_total_and_pure_witness:
  "list_all is_Product (products app0) \<and>
   filterEffect app0 = (None, app0\<lparr>searchResults := [puppyProduct]\<rparr>) \<and>
   filterEffect (app0\<lparr>searchResults := [puppyProduct]\<rparr>) =
     (None, app0\<lparr>searchResults := [puppyProduct]\<rparr>)"
proof -
  have h: "list_all is_Product (products app0)" by code_simp
  have f: "filter (\<lambda>P. matches P (filters app0) = Inr True) (products app0) = [puppyProduct]"
    by code_simp
  note t = filter_total_and_pure [OF h]
  have e: "filterEffect app0 = (None, app0\<lparr>searchResults := [puppyProduct]\<rparr>)"
    using t f by simp
  have i: "filterEffect (snd (filterEffect app0)) = filterEffect app0"
    using t by blast
  have "filterEffect (app0\<lparr>searchResults := [puppyProduct]\<rparr>) =
     (None, app0\<lparr>searchResults := [puppyProduct]\<rparr>)"
    using i unfolding e by simp
  with h e show ?thesis by simp
qed

section \<open>The filter form\<close>

text \<open>
  Claim C4. Whatever update is applied to a filter state, if it changes petType then the
  selected special-care ids are empty afterwards; in particular setting petType to a value
  different from the current one (such as "dog" to "cat") stores the new value and clears
  the selection. Toggling a special-care id never changes petType.
\<close>

theorem updateFilter_petType_clears_specialCare:
  "(petType (updateFilter u prev) \<noteq> petType prev \<longrightarrow> specialCare (updateFilter u prev) = []) \<and>
   (v \<noteq> petType prev \<longrightarrow>
      petType (updateFilter (Upd_petType v) prev) = v \<and>
      specialCare (updateFilter (Upd_petType v) prev) = []) \<and>
   petType (toggleSpecialCare careId prev) = petType prev"
  by (cases u) (auto simp add: updateFilter_def toggleSpecialCare_def Let_def)

theorem updateFilter_petType_clears_specialCare_witness:
  "petType (initialFilters\<lparr>specialCare := [''3'', ''7'']\<rparr>) = ''dog'' \<and>
   petType (updateFilter (Upd_petType ''cat'') (initialFilters\<lparr>specialCare := [''3'', ''7'']\<rparr>))
     = ''cat'' \<and>
   specialCare (updateFilter (Upd_petType ''cat'') (initialFilters\<lparr>specialCare := [''3'', ''7'']\<rparr>))
     = []"
  using updateFilter_petType_clears_specialCare
          [of "Upd_petType ''cat''" "initialFilters\<lparr>specialCare := [''3'', ''7'']\<rparr>" "''cat''"]
  by (simp add: initialFilters_def)

section \<open>The product card image\<close>

text \<open>
  Claim C10. On a product that conforms to the \<^verbatim>\<open>Product\<close> interface the image source
  is the \<^verbatim>\<open>img\<close> string when that field is present and non-empty, and the empty string
  otherwise. The fields \<^verbatim>\<open>image\<close> and \<^verbatim>\<open>img_thumbnail\<close> have no influence: setting
  them to any values leaves the result unchanged, and a product without \<^verbatim>\<open>img\<close>
  shows the "No Image" placeholder.
\<close>

theorem getImageSource_img_only:
  assumes "is_Product P"
  shows "getImageSource P = Inr (JStr (str_of (prop_of P ''img''))) \<and>
         getImageSource (JObj (AList.update ''image'' v (AList.update ''img_thumbnail'' w kvs)))
           = getImageSource (JObj kvs) \<and>
         (prop_of P ''img'' = JUndefined \<longrightarrow> imageShown P = Inr False)"
proof -
  from assms obtain ps where P: "P = JObj ps"
    by (cases P) (simp_all add: is_Product_def)
  from assms P have "is_optional is_string (prop_of P ''img'')"
    by (simp add: is_Product_def)
  then have a: "getImageSource P = Inr (JStr (str_of (prop_of P ''img'')))"
    using P by (cases "prop_of P ''img''")
      (simp_all add: getImageSource_def get_prop_def js_or_def is_optional_def str_of_def)
  have b: "getImageSource (JObj (AList.update ''image'' v (AList.update ''img_thumbnail'' w kvs)))
           = getImageSource (JObj kvs)"
    by (simp add: getImageSource_def get_prop_def prop_of_update)
  have c: "prop_of P ''img'' = JUndefined \<longrightarrow> imageShown P = Inr False"
    using a by (simp add: imageShown_def str_of_def)
  show ?thesis using a b c by blast
qed

theorem getImageSource_img_only_witness:
  "is_Product plainProduct \<and> prop_of plainProduct ''img'' = JUndefined \<and>
   prop_of plainProduct ''image'' = JStr ''ocean.png'' \<and>
   getImageSource plainProduct = Inr (JStr []) \<and> imageShown plainProduct = Inr False"
proof -
  have h: "is_Product plainProduct" by code_simp
  have u: "prop_of plainProduct ''img'' = JUndefined" by code_simp
  have i: "prop_of plainProduct ''image'' = JStr ''ocean.png''" by code_simp
  show ?thesis
    using getImageSource_img_only [OF h] h u i by (simp add: str_of_def)
qed

section \<open>The product loader\<close>

lemma failed_products:
  "spec_fetch_failed outcome \<Longrightarrow> \<exists>e. productsOfOutcome num requested outcome = Inl e"
  by (auto simp add: spec_fetch_failed_def productsOfOutcome_def
      split: http_outcome.splits sum.splits)

text \<open>
  Claim C3. With a non-empty food type, whatever the server answers, the product loader
  ends without an exception, with the loading flag cleared and the has-searched flag set,
  after exactly one request; when the request fails (transport failure, non-success status
  or unparsable body), and more generally whenever the \<^verbatim>\<open>try\<close> block throws, the
  product list is empty. With an empty food type no request is made: the loader only
  empties the product list.
\<close>

theorem fetchProducts_fail_soft:
  "(foodType (filters st) = [] \<longrightarrow> fetchProducts num srv st = (None, st\<lparr>products := []\<rparr>)) \<and>
   (foodType (filters st) \<noteq> [] \<longrightarrow>
      fst (fetchProducts num srv st) = None \<and>
      \<not> isLoading (snd (fetchProducts num srv st)) \<and>
      hasSearched (snd (fetchProducts num srv st)) \<and>
      requests (snd (fetchProducts num srv st)) = Suc (requests st) \<and>
      (spec_fetch_failed (srv (requests st)) \<longrightarrow>
         products (snd (fetchProducts num srv st)) = []) \<and>
      (\<forall>e. productsOfOutcome num (foodType (filters st)) (srv (requests st)) = Inl e \<longrightarrow>
             products (snd (fetchProducts num srv st)) = []))"
proof -
  have "spec_fetch_failed (srv (requests st)) \<Longrightarrow>
        \<exists>e. productsOfOutcome num (foodType (filters st)) (srv (requests st)) = Inl e"
    by (rule failed_products)
  then show ?thesis
    by (auto simp add: fetchProducts_def try_catch_finally_def Let_def split: sum.splits)
qed

theorem fetchProducts_fail_soft_witness:
  "foodType (filters app0) \<noteq> [] \<and> spec_fetch_failed (failing (requests app0)) \<and>
   fst (fetchProducts string_of_int failing app0) = None \<and>
   products (snd (fetchProducts string_of_int failing app0)) = [] \<and>
   hasSearched (snd (fetchProducts string_of_int failing app0)) \<and>
   \<not> isLoading (snd (fetchProducts string_of_int failing app0)) \<and>
   requests (snd (fetchProducts string_of_int failing app0)) = 1 \<and>
   foodType (filters (app0\<lparr>filters := initialFilters\<lparr>foodType := []\<rparr>\<rparr>)) = [] \<and>
   fetchProducts string_of_int failing (app0\<lparr>filters := initialFilters\<lparr>foodType := []\<rparr>\<rparr>) =
     (None, app0\<lparr>filters := initialFilters\<lparr>foodType := []\<rparr>, products := []\<rparr>)"
proof -
  have a: "foodType (filters app0) \<noteq> []" by code_simp
  have b: "spec_fetch_failed (failing (requests app0))" by code_simp
  have c: "requests app0 = 0" by code_simp
  have d: "foodType (filters (app0\<lparr>filters := initialFilters\<lparr>foodType := []\<rparr>\<rparr>)) = []"
    by simp
  show ?thesis
    using fetchProducts_fail_soft [where st = app0 and srv = failing and num = string_of_int]
      fetchProducts_fail_soft
        [where st = "app0\<lparr>filters := initialFilters\<lparr>foodType := []\<rparr>\<rparr>" and srv = failing
           and num = string_of_int]
      a b c d
    by simp
qed

lemma fetched_products_mapped:
  assumes "foodType (filters st) \<noteq> []"
    and "p \<in> set (products (snd (fetchProducts num srv st)))"
  shows "\<exists>raw. productOfRaw num (foodType (filters st)) raw = Inr p"
proof (cases "productsOfOutcome num (foodType (filters st)) (srv (requests st))")
  case (Inl e)
  with assms show ?thesis
    by (simp add: fetchProducts_def try_catch_finally_def Let_def)
next
  case (Inr ps)
  with assms have p: "p \<in> set ps"
    by (simp add: fetchProducts_def try_catch_finally_def Let_def)
  from Inr obtain raws where "map_result (productOfRaw num (foodType (filters st))) raws = Inr ps"
    by (auto simp add: productsOfOutcome_def Let_def
        split: http_outcome.splits sum.splits if_splits)
  then have "\<exists>x\<in>set raws. productOfRaw num (foodType (filters st)) x = Inr p"
    using p by (rule map_result_set)
  then show ?thesis by blast
qed

text \<open>An id of the interface's type (absent, a string or a number) always has a string.\<close>

lemma ToString_typed_id:
  "is_optional (\<lambda>v. is_string v \<or> is_number v) v \<Longrightarrow>
   \<exists>s. ToString num (js_coalesce v (JStr [])) = Inr s"
  by (cases v) (simp_all add: is_optional_def js_coalesce_def)

lemma productOfRaw_returns:
  "(\<exists>p. productOfRaw num requested raw = Inr p) \<longleftrightarrow>
   (\<not> nullish raw \<and> (\<exists>s. ToString num (js_coalesce (prop_of raw ''id'') (JStr [])) = Inr s))"
  by (auto simp add: productOfRaw_def get_prop_def split: sum.splits)

text \<open>
  Claim C9, as stated, fails on the name: the loader keeps a truthy raw name of any type, so
  the raw record with the name 5 gives a product whose name is the number 5, not a string.
\<close>

theorem productOfRaw_numeric_name:
  "productOfRaw string_of_int ''dry'' numericNameRecord = Inr loadedNumericName \<and>
   prop_of numericNameRecord ''name'' = JNum 5 \<and>
   prop_of loadedNumericName ''name'' = JNum 5 \<and>
   \<not> is_string (prop_of loadedNumericName ''name'')"
proof -
  have a: "productOfRaw string_of_int ''dry'' numericNameRecord = Inr loadedNumericName"
    by code_simp
  have b: "prop_of numericNameRecord ''name'' = JNum 5" by code_simp
  have c: "prop_of loadedNumericName ''name'' = JNum 5" by code_simp
  show ?thesis using a b c by simp
qed

text \<open>
  Claim C9, amended. A product made from a raw record has a string id, the result of
  \<^verbatim>\<open>String(id ?? "")\<close>, which is the empty string when the raw id is absent. Its name is
  truthy: it is "Unknown Product" when the raw name is absent, empty or otherwise falsy, and
  the raw name itself otherwise, hence a non-empty string whenever the raw name is a string.
  Its productType is the requested food type, whatever the raw record says. A raw record
  gives a product exactly when it is neither \<^verbatim>\<open>null\<close> nor \<^verbatim>\<open>undefined\<close> and the
  conversion of its id does not throw, which is so whenever the id is absent, a string or a
  number. Every product that the loader stores is made this way.
\<close>

theorem productOfRaw_fields:
  "(productOfRaw num requested raw = Inr p \<longrightarrow>
      (\<exists>s. ToString num (js_coalesce (prop_of raw ''id'') (JStr [])) = Inr s \<and>
           prop_of p ''id'' = JStr s) \<and>
      (prop_of raw ''id'' = JUndefined \<longrightarrow> prop_of p ''id'' = JStr []) \<and>
      truthy (prop_of p ''name'') \<and>
      (\<not> truthy (prop_of raw ''name'') \<longrightarrow> prop_of p ''name'' = JStr ''Unknown Product'') \<and>
      (truthy (prop_of raw ''name'') \<longrightarrow> prop_of p ''name'' = prop_of raw ''name'') \<and>
      (\<forall>s. prop_of raw ''name'' = JStr s \<longrightarrow>
         prop_of p ''name'' = JStr (if s = [] then ''Unknown Product'' else s)) \<and>
      prop_of p ''productType'' = JStr requested) \<and>
   ((\<exists>p'. productOfRaw num requested raw = Inr p') \<longleftrightarrow>
      (\<not> nullish raw \<and>
       (\<exists>s. ToString num (js_coalesce (prop_of raw ''id'') (JStr [])) = Inr s))) \<and>
   (\<not> nullish raw \<and> is_optional (\<lambda>v. is_string v \<or> is_number v) (prop_of raw ''id'') \<longrightarrow>
      (\<exists>p'. productOfRaw num requested raw = Inr p')) \<and>
   (foodType (filters st) \<noteq> [] \<and> q \<in> set (products (snd (fetchProducts num srv st))) \<longrightarrow>
      (\<exists>r. productOfRaw num (foodType (filters st)) r = Inr q))"
proof -
  have a: "productOfRaw num requested raw = Inr p \<longrightarrow>
      (\<exists>s. ToString num (js_coalesce (prop_of raw ''id'') (JStr [])) = Inr s \<and>
           prop_of p ''id'' = JStr s) \<and>
      (prop_of raw ''id'' = JUndefined \<longrightarrow> prop_of p ''id'' = JStr []) \<and>
      truthy (prop_of p ''name'') \<and>
      (\<not> truthy (prop_of raw ''name'') \<longrightarrow> prop_of p ''name'' = JStr ''Unknown Product'') \<and>
      (truthy (prop_of raw ''name'') \<longrightarrow> prop_of p ''name'' = prop_of raw ''name'') \<and>
      (\<forall>s. prop_of raw ''name'' = JStr s \<longrightarrow>
         prop_of p ''name'' = JStr (if s = [] then ''Unknown Product'' else s)) \<and>
      prop_of p ''productType'' = JStr requested"
    by (auto simp add: productOfRaw_def get_prop_def prop_of_update js_or_def js_coalesce_def
        split: if_splits sum.splits)
  have b: "(\<exists>p'. productOfRaw num requested raw = Inr p') \<longleftrightarrow>
      (\<not> nullish raw \<and>
       (\<exists>s. ToString num (js_coalesce (prop_of raw ''id'') (JStr [])) = Inr s))"
    by (rule productOfRaw_returns)
  have c: "\<not> nullish raw \<and> is_optional (\<lambda>v. is_string v \<or> is_number v) (prop_of raw ''id'') \<longrightarrow>
      (\<exists>p'. productOfRaw num requested raw = Inr p')"
    using b ToString_typed_id by blast
  have d: "foodType (filters st) \<noteq> [] \<and> q \<in> set (products (snd (fetchProducts num srv st))) \<longrightarrow>
      (\<exists>r. productOfRaw num (foodType (filters st)) r = Inr q)"
    using fetched_products_mapped by blast
  show ?thesis using a b c d by blast
qed

theorem productOfRaw_fields_witness:
  "productOfRaw string_of_int ''dry'' rawRecord = Inr loadedRecord \<and>
   prop_of rawRecord ''name'' = JStr [] \<and>
   prop_of rawRecord ''productType'' = JStr ''wet'' \<and>
   prop_of loadedRecord ''id'' = JStr ''42'' \<and>
   prop_of loadedRecord ''name'' = JStr ''Unknown Product'' \<and>
   prop_of loadedRecord ''productType'' = JStr ''dry'' \<and>
   \<not> nullish rawRecord \<and>
   is_optional (\<lambda>v. is_string v \<or> is_number v) (prop_of rawRecord ''id'') \<and>
   (\<exists>p'. productOfRaw string_of_int ''dry'' rawRecord = Inr p') \<and>
   productOfRaw string_of_int ''wet'' (JObj []) = Inr loadedEmpty \<and>
   prop_of loadedEmpty ''id'' = JStr [] \<and>
   prop_of loadedNumericName ''name'' = JNum 5 \<and>
   \<not> (\<exists>p'. productOfRaw string_of_int ''dry'' hostileRecord = Inr p') \<and>
   products (snd (fetchProducts string_of_int hostileCatalog app0)) = [] \<and>
   foodType (filters app0) = ''dry'' \<and>
   loadedRecord \<in> set (products (snd (fetchProducts string_of_int catalog app0))) \<and>
   (\<exists>r. productOfRaw string_of_int ''dry'' r = Inr loadedRecord)"
proof -
  have a: "productOfRaw string_of_int ''dry'' rawRecord = Inr loadedRecord" by code_simp
  have b: "prop_of rawRecord ''name'' = JStr []" by code_simp
  have c: "prop_of rawRecord ''productType'' = JStr ''wet''" by code_simp
  have d: "ToString string_of_int (js_coalesce (prop_of rawRecord ''id'') (JStr [])) = Inr ''42''"
    by code_simp
  have e: "productOfRaw string_of_int ''wet'' (JObj []) = Inr loadedEmpty" by code_simp
  have f: "prop_of (JObj []) ''id'' = JUndefined" by code_simp
  have g: "foodType (filters app0) = ''dry''" by code_simp
  have h: "loadedRecord \<in> set (products (snd (fetchProducts string_of_int catalog app0)))"
    by code_simp
  have n: "productOfRaw string_of_int ''dry'' numericNameRecord = Inr loadedNumericName"
    by code_simp
  have o: "prop_of numericNameRecord ''name'' = JNum 5" by code_simp
  have x: "ToString string_of_int (js_coalesce (prop_of hostileRecord ''id'') (JStr [])) =
           Inl (TypeError ''Cannot convert object to primitive value'')"
    by code_simp
  have y: "products (snd (fetchProducts string_of_int hostileCatalog app0)) = []" by code_simp
  note t1 = productOfRaw_fields
    [where num = string_of_int and requested = "''dry''" and raw = rawRecord and p = loadedRecord
       and st = app0 and q = loadedRecord and srv = catalog]
  note t2 = productOfRaw_fields
    [where num = string_of_int and requested = "''wet''" and raw = "JObj []" and p = loadedEmpty
       and st = app0 and q = loadedRecord and srv = catalog]
  note t3 = productOfRaw_fields
    [where num = string_of_int and requested = "''dry''" and raw = numericNameRecord
       and p = loadedNumericName and st = app0 and q = loadedRecord and srv = catalog]
  note t4 = productOfRaw_fields
    [where num = string_of_int and requested = "''dry''" and raw = hostileRecord
       and p = loadedRecord and st = app0 and q = loadedRecord and srv = catalog]
  have i: "prop_of loadedRecord ''id'' = JStr ''42''" using t1 a d by simp
  have j: "prop_of loadedRecord ''name'' = JStr ''Unknown Product''" using t1 a b by simp
  have k: "prop_of loadedRecord ''productType'' = JStr ''dry''" using t1 a by simp
  have l: "prop_of loadedEmpty ''id'' = JStr []" using t2 e f by blast
  have m: "\<exists>r. productOfRaw string_of_int ''dry'' r = Inr loadedRecord" using t1 g h by simp
  have q: "prop_of loadedNumericName ''name'' = JNum 5" using t3 n o by simp
  have r: "\<not> (\<exists>p'. productOfRaw string_of_int ''dry'' hostileRecord = Inr p')"
    using t4 x by simp
  have u: "\<not> nullish rawRecord" by code_simp
  have v: "is_optional (\<lambda>v. is_string v \<or> is_number v) (prop_of rawRecord ''id'')"
    by code_simp
  have w: "\<exists>p'. productOfRaw string_of_int ''dry'' rawRecord = Inr p'"
    using t1 u v by blast
  show ?thesis using a b c e g h i j k l m q r u v w y by simp
qed

section \<open>The special-care option loader\<close>

lemma failed_options:
  assumes "spec_fetch_failed (srv n)" and "pet \<noteq> []"
  shows "\<exists>e. fst (fetchSpecialCareOptionsApi num srv pet n) = Inl e"
  using assms
  by (auto simp add: spec_fetch_failed_def fetchSpecialCareOptionsApi_def Let_def
      split: http_outcome.splits sum.splits)

text \<open>
  Claim C2, as stated, fails: when the response is successful but the nested list is absent,
  no error is surfaced. The loader returns the empty sequence and the panel shows no error.
  Moreover, after a failed call the stored option list is not emptied but keeps its
  previous value (the panel hides it behind the error text).
\<close>

theorem loadOptions_missing_list_no_error:
  "petType (internalFilters panel0) = ''dog'' \<and>
   shapeless (calls panel0) = Response 200 (Inr (JObj [])) \<and> ok 200 \<and>
   \<not> isArray (nestedList (JObj [])) \<and>
   fst (fetchSpecialCareOptionsApi string_of_int shapeless ''dog'' (calls panel0)) = Inr [] \<and>
   fst (loadOptions string_of_int shapeless panel0) = None \<and>
   shownError (snd (loadOptions string_of_int shapeless panel0)) = None \<and>
   spec_fetch_failed (offline (calls panel0)) \<and>
   specialCareOptions (snd (loadOptions string_of_int offline panel0)) = [lowFat]"
proof -
  have a: "petType (internalFilters panel0) = ''dog''" by code_simp
  have b: "shapeless (calls panel0) = Response 200 (Inr (JObj []))" by (simp add: shapeless_def)
  have c: "ok 200" by (simp add: ok_def)
  have d: "\<not> isArray (nestedList (JObj []))" by code_simp
  have e: "fst (fetchSpecialCareOptionsApi string_of_int shapeless ''dog'' (calls panel0)) = Inr []"
    by code_simp
  have f: "fst (loadOptions string_of_int shapeless panel0) = None" by code_simp
  have g: "shownError (snd (loadOptions string_of_int shapeless panel0)) = None" by code_simp
  have h: "spec_fetch_failed (offline (calls panel0))" by code_simp
  have i: "specialCareOptions (snd (loadOptions string_of_int offline panel0)) = [lowFat]"
    by code_simp
  show ?thesis using a b c d e f g h i by simp
qed

text \<open>
  Claim C2, amended. For a non-empty pet type the loader issues exactly one request and the
  effect ends without an exception and with the loading flag cleared. When the call fails
  (transport failure, non-success status or unparsable body) the loader throws; whenever it
  throws, the panel shows the error's message (or "Failed to load options" when the message
  is empty) and no option, and the stored option list keeps its previous value. When the
  response is successful and the nested list is absent, the loader returns the empty
  sequence: the option list becomes empty and no error is shown.
\<close>

theorem loadOptions_failure_handling:
  assumes "petType (internalFilters st) \<noteq> []"
  shows
   "fst (loadOptions num srv st) = None \<and>
    calls (snd (loadOptions num srv st)) = Suc (calls st) \<and>
    \<not> isLoadingSpecialCare (snd (loadOptions num srv st)) \<and>
    (\<forall>e. fst (fetchSpecialCareOptionsApi num srv (petType (internalFilters st)) (calls st)) = Inl e
       \<longrightarrow>
       shownError (snd (loadOptions num srv st)) =
         Some (if message e \<noteq> [] then message e else ''Failed to load options'') \<and>
       shownOptions (snd (loadOptions num srv st)) = [] \<and>
       specialCareOptions (snd (loadOptions num srv st)) = specialCareOptions st) \<and>
    (spec_fetch_failed (srv (calls st)) \<longrightarrow>
       (\<exists>e. fst (fetchSpecialCareOptionsApi num srv (petType (internalFilters st)) (calls st))
             = Inl e)) \<and>
    (\<forall>status json. srv (calls st) = Response status (Inr json) \<and> ok status \<and>
         \<not> isArray (nestedList json) \<longrightarrow>
       fst (fetchSpecialCareOptionsApi num srv (petType (internalFilters st)) (calls st)) = Inr [] \<and>
       shownError (snd (loadOptions num srv st)) = None \<and>
       specialCareOptions (snd (loadOptions num srv st)) = [])"
proof -
  let ?r = "fetchSpecialCareOptionsApi num srv (petType (internalFilters st)) (calls st)"
  have n: "snd ?r = Suc (calls st)"
    using assms by (simp add: fetchSpecialCareOptionsApi_def)
  obtain res where r: "?r = (res, Suc (calls st))"
    using n by (cases ?r) simp
  have a: "fst (loadOptions num srv st) = None \<and>
    calls (snd (loadOptions num srv st)) = Suc (calls st) \<and>
    \<not> isLoadingSpecialCare (snd (loadOptions num srv st))"
    using assms r by (cases res) (simp_all add: loadOptions_def try_catch_finally_def)
  have b: "\<forall>e. fst ?r = Inl e \<longrightarrow>
       shownError (snd (loadOptions num srv st)) =
         Some (if message e \<noteq> [] then message e else ''Failed to load options'') \<and>
       shownOptions (snd (loadOptions num srv st)) = [] \<and>
       specialCareOptions (snd (loadOptions num srv st)) = specialCareOptions st"
    using assms r
    by (cases res)
      (simp_all add: loadOptions_def try_catch_finally_def shownError_def shownOptions_def)
  have c: "spec_fetch_failed (srv (calls st)) \<longrightarrow> (\<exists>e. fst ?r = Inl e)"
    using failed_options [of srv "calls st" "petType (internalFilters st)" num] assms by blast
  have d: "\<forall>status json. srv (calls st) = Response status (Inr json) \<and> ok status \<and>
         \<not> isArray (nestedList json) \<longrightarrow>
       fst ?r = Inr [] \<and>
       shownError (snd (loadOptions num srv st)) = None \<and>
       specialCareOptions (snd (loadOptions num srv st)) = []"
  proof (intro allI impI, elim conjE)
    fix status json
    assume s: "srv (calls st) = Response status (Inr json)" and o: "ok status"
      and l: "\<not> isArray (nestedList json)"
    have "?r = (Inr [], Suc (calls st))"
      using assms s o l by (simp add: fetchSpecialCareOptionsApi_def)
    then show "fst ?r = Inr [] \<and>
       shownError (snd (loadOptions num srv st)) = None \<and>
       specialCareOptions (snd (loadOptions num srv st)) = []"
      using assms by (simp add: loadOptions_def try_catch_finally_def shownError_def)
  qed
  show ?thesis using a b c d by blast
qed

theorem loadOptions_failure_handling_witness:
  "petType (internalFilters panel0) \<noteq> [] \<and>
   spec_fetch_failed (offline (calls panel0)) \<and>
   fst (loadOptions string_of_int offline panel0) = None \<and>
   calls (snd (loadOptions string_of_int offline panel0)) = 1 \<and>
   shownError (snd (loadOptions string_of_int offline panel0)) = Some ''Failed to fetch'' \<and>
   shownOptions (snd (loadOptions string_of_int offline panel0)) = [] \<and>
   shapeless (calls panel0) = Response 200 (Inr (JObj [])) \<and>
   specialCareOptions (snd (loadOptions string_of_int shapeless panel0)) = [] \<and>
   shownError (snd (loadOptions string_of_int shapeless panel0)) = None"
proof -
  have a: "petType (internalFilters panel0) \<noteq> []" by code_simp
  have b: "spec_fetch_failed (offline (calls panel0))" by code_simp
  have c: "calls panel0 = 0" by code_simp
  have d: "fst (fetchSpecialCareOptionsApi string_of_int offline (petType (internalFilters panel0))
                  (calls panel0)) = Inl (TypeError ''Failed to fetch'')"
    by code_simp
  have e: "shapeless (calls panel0) = Response 200 (Inr (JObj []))" by (simp add: shapeless_def)
  have f: "ok 200" by (simp add: ok_def)
  have g: "\<not> isArray (nestedList (JObj []))" by code_simp
  note t1 = loadOptions_failure_handling [OF a, where srv = offline and num = string_of_int]
  note t2 = loadOptions_failure_handling [OF a, where srv = shapeless and num = string_of_int]
  have h: "fst (loadOptions string_of_int offline panel0) = None \<and>
           calls (snd (loadOptions string_of_int offline panel0)) = 1"
    using t1 c by simp
  have i: "shownError (snd (loadOptions string_of_int offline panel0)) = Some ''Failed to fetch'' \<and>
           shownOptions (snd (loadOptions string_of_int offline panel0)) = []"
    using t1 d by simp
  have j: "specialCareOptions (snd (loadOptions string_of_int shapeless panel0)) = [] \<and>
           shownError (snd (loadOptions string_of_int shapeless panel0)) = None"
    using t2 e f g by blast
  show ?thesis using a b e h i j by simp
qed

end
